theory Spec2Isabelle
  imports Complex_Main "HOL-Library.Sublist"
begin

section \<open>JavaScript values and the built-ins the components call\<close>

text \<open>
  The TurboPivot front end is TypeScript. Strings are modelled as \<open>string\<close>, each
  \<open>char\<close> read as the code unit U+0000..U+00FF it numbers. A JavaScript number is
  kept as \<open>NaN\<close>, a signed infinity, or the exact rational a numeric literal denotes
  (the rounding to binary64 and the sign of zero are not modelled: the components only
  test a number for \<open>NaN\<close> and store it).
\<close>

datatype jsnumber = NaN | Infinity bool | Finite rat

datatype jsvalue =
    JUndefined
  | JNull
  | JBoolean bool
  | JNumber jsnumber
  | JString string
  | JArray "jsvalue list"
  | JObject "(string \<times> jsvalue) list"

datatype error = TypeError

definition isNaN :: "jsnumber \<Rightarrow> bool" where
  "isNaN x = (x = NaN)"

text \<open>White space and line terminators of ECMAScript below U+0100: TAB, LF, VT, FF, CR, SP, NBSP.\<close>

definition isWhiteSpace :: "char \<Rightarrow> bool" where
  "isWhiteSpace c = (of_char c \<in> {9, 10, 11, 12, 13, 32, 160 :: nat})"

text \<open>\<^verbatim>\<open>String.prototype.trim\<close>\<close>

definition trim :: "string \<Rightarrow> string" where
  "trim s = rev (dropWhile isWhiteSpace (rev (dropWhile isWhiteSpace s)))"

text \<open>\<^verbatim>\<open>String.prototype.toLowerCase\<close>: A-Z and the Latin-1 capitals move up by 32.\<close>

definition toLowerChar :: "char \<Rightarrow> char" where
  "toLowerChar c =
     (let n = (of_char c :: nat)
      in if (65 \<le> n \<and> n \<le> 90) \<or> (192 \<le> n \<and> n \<le> 222 \<and> n \<noteq> 215)
         then char_of (n + 32) else c)"

definition toLowerCase :: "string \<Rightarrow> string" where
  "toLowerCase s = map toLowerChar s"

text \<open>\<^verbatim>\<open>String.prototype.split\<close> with a one-character separator; \<^verbatim>\<open>"".split(",")\<close> is \<^verbatim>\<open>[""]\<close>.\<close>

fun split :: "char \<Rightarrow> string \<Rightarrow> string list" where
  "split sep [] = [[]]"
| "split sep (c # cs) =
     (if c = sep then [] # split sep cs
      else (case split sep cs of [] \<Rightarrow> [[c]] | w # ws \<Rightarrow> (c # w) # ws))"

subsection \<open>\<^verbatim>\<open>Number(string)\<close>: the StringToNumber conversion\<close>

definition digitValue :: "char \<Rightarrow> nat option" where
  "digitValue c =
     map_of (zip ''0123456789abcdef'' [0 ..< 16] @ zip ''ABCDEF'' [10 ..< 16]) c"

definition isDigitOf :: "nat \<Rightarrow> char \<Rightarrow> bool" where
  "isDigitOf base c = (case digitValue c of None \<Rightarrow> False | Some d \<Rightarrow> d < base)"

definition digitsValue :: "nat \<Rightarrow> string \<Rightarrow> nat" where
  "digitsValue base ds =
     foldl (\<lambda>acc c. acc * base + (case digitValue c of None \<Rightarrow> 0 | Some d \<Rightarrow> d)) 0 ds"

text \<open>A non-empty run of digits of the base, and nothing else.\<close>

definition allDigits :: "nat \<Rightarrow> string \<Rightarrow> nat option" where
  "allDigits base ds =
     (if ds \<noteq> [] \<and> list_all (isDigitOf base) ds then Some (digitsValue base ds) else None)"

text \<open>ExponentPart, optional: \<^verbatim>\<open>e\<close> or \<^verbatim>\<open>E\<close>, an optional sign, decimal digits.\<close>

definition exponentPart :: "string \<Rightarrow> int option" where
  "exponentPart s =
     (case s of
        [] \<Rightarrow> Some 0
      | c # t \<Rightarrow>
          if c = CHR ''e'' \<or> c = CHR ''E'' then
            (case t of
               [] \<Rightarrow> None
             | d # ds \<Rightarrow>
                 if d = CHR ''+'' then map_option int (allDigits 10 ds)
                 else if d = CHR ''-'' then map_option (\<lambda>n. - int n) (allDigits 10 ds)
                 else map_option int (allDigits 10 t))
          else None)"

definition scale10 :: "nat \<Rightarrow> int \<Rightarrow> rat" where
  "scale10 m e = (if 0 \<le> e then of_nat m * 10 ^ nat e else of_nat m / 10 ^ nat (- e))"

text \<open>
  StrUnsignedDecimalLiteral: \<^verbatim>\<open>Infinity\<close>, or digits with an optional fraction and
  exponent, or a fraction that starts with the point.
\<close>

definition unsignedDecimal :: "string \<Rightarrow> jsnumber" where
  "unsignedDecimal s =
     (if s = ''Infinity'' then Infinity True
      else
        let ip = takeWhile (isDigitOf 10) s;
            r1 = dropWhile (isDigitOf 10) s;
            fp = (case r1 of [] \<Rightarrow> [] | c # t \<Rightarrow>
                    if c = CHR ''.'' then takeWhile (isDigitOf 10) t else []);
            r2 = (case r1 of [] \<Rightarrow> [] | c # t \<Rightarrow>
                    if c = CHR ''.'' then dropWhile (isDigitOf 10) t else r1)
        in if ip = [] \<and> fp = [] then NaN
           else (case exponentPart r2 of
                   None \<Rightarrow> NaN
                 | Some e \<Rightarrow> Finite (scale10 (digitsValue 10 (ip @ fp)) (e - int (length fp)))))"

definition negate :: "jsnumber \<Rightarrow> jsnumber" where
  "negate x = (case x of NaN \<Rightarrow> NaN | Infinity b \<Rightarrow> Infinity (\<not> b) | Finite q \<Rightarrow> Finite (- q))"

definition radixLiteral :: "nat \<Rightarrow> string \<Rightarrow> jsnumber" where
  "radixLiteral base ds = (case allDigits base ds of None \<Rightarrow> NaN | Some n \<Rightarrow> Finite (of_nat n))"

definition Number :: "string \<Rightarrow> jsnumber" where
  "Number s =
     (let t = trim s
      in case t of
           [] \<Rightarrow> Finite 0
         | c # r \<Rightarrow>
             if c = CHR ''+'' then unsignedDecimal r
             else if c = CHR ''-'' then negate (unsignedDecimal r)
             else if c = CHR ''0'' \<and> r \<noteq> [] \<and> hd r \<in> set ''xX'' then radixLiteral 16 (tl r)
             else if c = CHR ''0'' \<and> r \<noteq> [] \<and> hd r \<in> set ''oO'' then radixLiteral 8 (tl r)
             else if c = CHR ''0'' \<and> r \<noteq> [] \<and> hd r \<in> set ''bB'' then radixLiteral 2 (tl r)
             else unsignedDecimal t)"

section \<open>The data model (\<^verbatim>\<open>components/types.ts\<close>)\<close>

datatype AggregationType =
  Sum | Mean | Count | Min_agg | Max_agg | First | Last | Median | Std | Var

datatype FilterOperator =
  Equal | NotEqual | GreaterThan | LessThan | GreaterThanOrEqual | LessThanOrEqual
  | Contains | In

record ValueWithAggregation =
  field :: string
  aggregation :: AggregationType

record FilterCondition =
  column :: string
  operator :: FilterOperator
  "value" :: jsvalue

record PivotRequest =
  data_path :: string
  rows :: "string list"
  columns :: "string list"
  "values" :: "ValueWithAggregation list"
  filters :: "FilterCondition list option"

record PivotResult =
  data :: "(string \<times> jsvalue) list list"
  column_headers :: "string list list"
  row_headers :: "string list"

section \<open>\<^verbatim>\<open>FilterConfigurator\<close>\<close>

text \<open>
  The component's state is its list of filters. Every handler ends with
  \<^verbatim>\<open>setFilters(updatedFilters); onFiltersChange(updatedFilters)\<close>, so the list a
  handler returns is both the next state and the list handed to the parent.
\<close>

definition addFilter :: "string list \<Rightarrow> FilterCondition list \<Rightarrow> FilterCondition list" where
  "addFilter cols fs =
     (case cols of
        [] \<Rightarrow> fs
      | c # _ \<Rightarrow> fs @ [\<lparr>column = c, operator = Equal, value = JString []\<rparr>])"

definition removeFilter :: "nat \<Rightarrow> FilterCondition list \<Rightarrow> FilterCondition list" where
  "removeFilter index fs = map snd (filter (\<lambda>(i, _). i \<noteq> index) (enumerate 0 fs))"

text \<open>The element conversion of the \<^verbatim>\<open>In\<close> branch (the inner \<^verbatim>\<open>items.map\<close>).\<close>

definition parseItem :: "string \<Rightarrow> jsvalue" where
  "parseItem item =
     (if \<not> isNaN (Number item) \<and> item \<noteq> [] then JNumber (Number item)
      else if toLowerCase item = ''true'' then JBoolean True
      else if toLowerCase item = ''false'' then JBoolean False
      else JString item)"

text \<open>
  The value a text input is turned into, given the operator of the condition it belongs
  to (the \<^verbatim>\<open>field === "value"\<close> branch of \<^verbatim>\<open>updateFilter\<close>).
\<close>

definition coerceValue :: "FilterOperator \<Rightarrow> string \<Rightarrow> jsvalue" where
  "coerceValue op v =
     (if \<not> isNaN (Number v) \<and> trim v \<noteq> [] then JNumber (Number v)
      else if toLowerCase v = ''true'' then JBoolean True
      else if toLowerCase v = ''false'' then JBoolean False
      else if op = In then JArray (map parseItem (map trim (split (CHR '','') v)))
      else JString v)"

text \<open>The \<^verbatim>\<open>(field, value)\<close> argument pair of \<^verbatim>\<open>updateFilter\<close>.\<close>

datatype field_update = Set_operator FilterOperator | Set_column string | Set_value string

text \<open>
  \<^verbatim>\<open>updatedFilters[index]\<close> is \<^verbatim>\<open>undefined\<close> past the end of the array, and reading or
  writing a property of it throws a \<^verbatim>\<open>TypeError\<close>; every branch does so.
\<close>

definition updateFilter ::
    "nat \<Rightarrow> field_update \<Rightarrow> FilterCondition list \<Rightarrow> error + FilterCondition list" where
  "updateFilter index upd fs =
     (if length fs \<le> index then Inl TypeError
      else
        let cur = fs ! index
        in Inr (fs[index :=
             (case upd of
                Set_operator op \<Rightarrow> cur\<lparr>operator := op\<rparr>
              | Set_column c \<Rightarrow> cur\<lparr>column := c\<rparr>
              | Set_value v \<Rightarrow> cur\<lparr>value := coerceValue (operator cur) v\<rparr>)]))"

text \<open>
  What the rendered form lets the user do. A filter row exists only for an index below
  the length of the list; the operator \<^verbatim>\<open><select>\<close> offers the seven options below
  and the column \<^verbatim>\<open><select>\<close> the available columns; the text input passes any string.
\<close>

definition operatorOptions :: "FilterOperator list" where
  "operatorOptions =
     [Equal, NotEqual, GreaterThan, LessThan, GreaterThanOrEqual, LessThanOrEqual, In]"

datatype filter_event =
    Click_add
  | Click_remove nat
  | Select_column nat string
  | Select_operator nat FilterOperator
  | Input_value nat string

definition handled :: "error + FilterCondition list \<Rightarrow> FilterCondition list option" where
  "handled r = (case r of Inl _ \<Rightarrow> None | Inr fs \<Rightarrow> Some fs)"

text \<open>\<open>None\<close>: the form as rendered cannot raise the event (or the handler threw).\<close>

fun filter_event_step ::
    "string list \<Rightarrow> FilterCondition list \<Rightarrow> filter_event \<Rightarrow> FilterCondition list option" where
  "filter_event_step cols fs Click_add = Some (addFilter cols fs)"
| "filter_event_step cols fs (Click_remove i) =
     (if i < length fs then Some (removeFilter i fs) else None)"
| "filter_event_step cols fs (Select_column i c) =
     (if i < length fs \<and> c \<in> set cols then handled (updateFilter i (Set_column c) fs) else None)"
| "filter_event_step cols fs (Select_operator i op) =
     (if i < length fs \<and> op \<in> set operatorOptions
      then handled (updateFilter i (Set_operator op) fs) else None)"
| "filter_event_step cols fs (Input_value i v) =
     (if i < length fs then handled (updateFilter i (Set_value v) fs) else None)"

fun filter_events ::
    "string list \<Rightarrow> FilterCondition list \<Rightarrow> filter_event list \<Rightarrow> FilterCondition list option" where
  "filter_events cols fs [] = Some fs"
| "filter_events cols fs (e # es) =
     (case filter_event_step cols fs e of None \<Rightarrow> None | Some fs' \<Rightarrow> filter_events cols fs' es)"

section \<open>\<^verbatim>\<open>PivotConfigurator\<close>\<close>

record PivotConfigurator =
  rowFields :: "string list"
  columnFields :: "string list"
  valueFields :: "ValueWithAggregation list"

text \<open>
  The value of the dimension \<^verbatim>\<open><select>\<close>. The handler's parameter type names three
  dimensions, but the fourth option, \<^verbatim>\<open>"none"\<close>, reaches it through \<^verbatim>\<open>as any\<close> and
  falls through the whole \<^verbatim>\<open>if\<close> chain.
\<close>

datatype dimension = Dim_rows | Dim_columns | Dim_values | Dim_none

text \<open>Both handlers pass the lists they store to \<^verbatim>\<open>onConfigChange\<close> unchanged.\<close>

definition handleDimensionChange ::
    "string \<Rightarrow> dimension \<Rightarrow> PivotConfigurator \<Rightarrow> PivotConfigurator" where
  "handleDimensionChange fld dimension c =
     (let newRowFields = filter (\<lambda>f. f \<noteq> fld) (rowFields c);
          newColumnFields = filter (\<lambda>f. f \<noteq> fld) (columnFields c);
          newValueFields = filter (\<lambda>v. field v \<noteq> fld) (valueFields c)
      in \<lparr>rowFields = (if dimension = Dim_rows then newRowFields @ [fld] else newRowFields),
          columnFields = (if dimension = Dim_columns then newColumnFields @ [fld] else newColumnFields),
          valueFields =
            (if dimension = Dim_values then newValueFields @ [\<lparr>field = fld, aggregation = Sum\<rparr>]
             else newValueFields)\<rparr>)"

definition handleAggregationChange ::
    "string \<Rightarrow> AggregationType \<Rightarrow> PivotConfigurator \<Rightarrow> PivotConfigurator" where
  "handleAggregationChange fld agg c =
     c\<lparr>valueFields :=
          map (\<lambda>v. if field v = fld then v\<lparr>aggregation := agg\<rparr> else v) (valueFields c)\<rparr>"

section \<open>\<^verbatim>\<open>App\<close>\<close>

record App =
  app_filePath :: "string option"
  app_columns :: "string list"
  app_rowFields :: "string list"
  app_columnFields :: "string list"
  app_valueFields :: "ValueWithAggregation list"
  app_filters :: "FilterCondition list"
  app_pivotResult :: "PivotResult option"
  app_isLoading :: bool
  app_error :: "string option"

definition handleFileSelected :: "string \<Rightarrow> string list \<Rightarrow> App \<Rightarrow> App" where
  "handleFileSelected path cols a =
     a\<lparr>app_filePath := Some path, app_columns := cols, app_pivotResult := None,
       app_error := None, app_filters := []\<rparr>"

definition handleConfigChange ::
    "string list \<Rightarrow> string list \<Rightarrow> ValueWithAggregation list \<Rightarrow> App \<Rightarrow> App" where
  "handleConfigChange rs cs vs a =
     a\<lparr>app_rowFields := rs, app_columnFields := cs, app_valueFields := vs\<rparr>"

definition handleFiltersChange :: "FilterCondition list \<Rightarrow> App \<Rightarrow> App" where
  "handleFiltersChange newFilters a = a\<lparr>app_filters := newFilters\<rparr>"

text \<open>
  \<^verbatim>\<open>generatePivot\<close>. The backend command \<^verbatim>\<open>run_pivot\<close> is a parameter: it answers a
  request with a result, or rejects with an error whose message is the string. The
  function returns the state once it has completed and the requests it has sent. A
  null and an empty \<^verbatim>\<open>filePath\<close> are both falsy.
\<close>

definition generatePivot ::
    "(PivotRequest \<Rightarrow> string + PivotResult) \<Rightarrow> App \<Rightarrow> App \<times> PivotRequest list" where
  "generatePivot run_pivot a =
     (if app_filePath a = None \<or> app_filePath a = Some []
      then (a\<lparr>app_error := Some ''Please select a file first''\<rparr>, [])
      else if length (app_valueFields a) = 0
      then (a\<lparr>app_error := Some ''Please select at least one value field with aggregation''\<rparr>, [])
      else
        let a1 = a\<lparr>app_isLoading := True, app_error := None\<rparr>;
            request = \<lparr>data_path = the (app_filePath a),
                       rows = app_rowFields a,
                       columns = app_columnFields a,
                       values = app_valueFields a,
                       filters = (if length (app_filters a) > 0 then Some (app_filters a) else None)\<rparr>
        in (case run_pivot request of
              Inr result \<Rightarrow>
                (a1\<lparr>app_pivotResult := Some result, app_isLoading := False\<rparr>, [request])
            | Inl err \<Rightarrow>
                (a1\<lparr>app_error := Some (''Error generating pivot: '' @ err),
                    app_pivotResult := None, app_isLoading := False\<rparr>, [request])))"

text \<open>The configurator's handlers together with the parent callback they end in.\<close>

datatype config_event =
    Dimension_change string dimension
  | Aggregation_change string AggregationType

fun config_step :: "PivotConfigurator \<times> App \<Rightarrow> config_event \<Rightarrow> PivotConfigurator \<times> App" where
  "config_step (c, a) (Dimension_change fld dimension) =
     (let c' = handleDimensionChange fld dimension c
      in (c', handleConfigChange (rowFields c') (columnFields c') (valueFields c') a))"
| "config_step (c, a) (Aggregation_change fld agg) =
     (let c' = handleAggregationChange fld agg c
      in (c', handleConfigChange (rowFields c) (columnFields c) (valueFields c') a))"

definition config_events ::
    "PivotConfigurator \<times> App \<Rightarrow> config_event list \<Rightarrow> PivotConfigurator \<times> App" where
  "config_events s es = foldl config_step s es"

definition PivotConfigurator_init :: PivotConfigurator where
  "PivotConfigurator_init = \<lparr>rowFields = [], columnFields = [], valueFields = []\<rparr>"

definition App_init :: App where
  "App_init =
     \<lparr>app_filePath = None, app_columns = [], app_rowFields = [], app_columnFields = [],
      app_valueFields = [], app_filters = [], app_pivotResult = None, app_isLoading = False,
      app_error = None\<rparr>"

section \<open>The request on the wire\<close>

text \<open>
  The enum declarations of \<^verbatim>\<open>types.ts\<close>: the identifier of each member, and the
  string it is initialised with, which is the member's value at run time.
\<close>

fun AggregationType_name :: "AggregationType \<Rightarrow> string" where
  "AggregationType_name Sum = ''Sum''"
| "AggregationType_name Mean = ''Mean''"
| "AggregationType_name Count = ''Count''"
| "AggregationType_name Min_agg = ''Min''"
| "AggregationType_name Max_agg = ''Max''"
| "AggregationType_name First = ''First''"
| "AggregationType_name Last = ''Last''"
| "AggregationType_name Median = ''Median''"
| "AggregationType_name Std = ''Std''"
| "AggregationType_name Var = ''Var''"

fun AggregationType_value :: "AggregationType \<Rightarrow> string" where
  "AggregationType_value Sum = ''Sum''"
| "AggregationType_value Mean = ''Mean''"
| "AggregationType_value Count = ''Count''"
| "AggregationType_value Min_agg = ''Min''"
| "AggregationType_value Max_agg = ''Max''"
| "AggregationType_value First = ''First''"
| "AggregationType_value Last = ''Last''"
| "AggregationType_value Median = ''Median''"
| "AggregationType_value Std = ''Std''"
| "AggregationType_value Var = ''Var''"

fun FilterOperator_name :: "FilterOperator \<Rightarrow> string" where
  "FilterOperator_name Equal = ''Equal''"
| "FilterOperator_name NotEqual = ''NotEqual''"
| "FilterOperator_name GreaterThan = ''GreaterThan''"
| "FilterOperator_name LessThan = ''LessThan''"
| "FilterOperator_name GreaterThanOrEqual = ''GreaterThanOrEqual''"
| "FilterOperator_name LessThanOrEqual = ''LessThanOrEqual''"
| "FilterOperator_name Contains = ''Contains''"
| "FilterOperator_name In = ''In''"

fun FilterOperator_value :: "FilterOperator \<Rightarrow> string" where
  "FilterOperator_value Equal = ''Equal''"
| "FilterOperator_value NotEqual = ''NotEqual''"
| "FilterOperator_value GreaterThan = ''GreaterThan''"
| "FilterOperator_value LessThan = ''LessThan''"
| "FilterOperator_value GreaterThanOrEqual = ''GreaterThanOrEqual''"
| "FilterOperator_value LessThanOrEqual = ''LessThanOrEqual''"
| "FilterOperator_value Contains = ''Contains''"
| "FilterOperator_value In = ''In''"

text \<open>
  \<^verbatim>\<open>invoke("run_pivot", { request })\<close> sends the request object as JSON: the properties
  of the object literal in their order, a string enum as its string, and a property
  whose value is \<^verbatim>\<open>undefined\<close> left out. A filter value is of type \<^verbatim>\<open>any\<close> and goes
  through \<^verbatim>\<open>JSON.stringify\<close>: a number that is \<^verbatim>\<open>NaN\<close> or infinite is written
  \<^verbatim>\<open>null\<close>, and so is \<^verbatim>\<open>undefined\<close> inside an array.
\<close>

fun json_value :: "jsvalue \<Rightarrow> jsvalue" where
  "json_value JUndefined = JNull"
| "json_value JNull = JNull"
| "json_value (JBoolean b) = JBoolean b"
| "json_value (JNumber n) = (case n of Finite q \<Rightarrow> JNumber (Finite q) | _ \<Rightarrow> JNull)"
| "json_value (JString s) = JString s"
| "json_value (JArray xs) = JArray (map json_value xs)"
| "json_value (JObject kvs) =
     JObject (map (\<lambda>kv. (fst kv, json_value (snd kv))) (filter (\<lambda>kv. snd kv \<noteq> JUndefined) kvs))"

definition json_ValueWithAggregation :: "ValueWithAggregation \<Rightarrow> jsvalue" where
  "json_ValueWithAggregation v =
     JObject [(''field'', JString (field v)),
              (''aggregation'', JString (AggregationType_value (aggregation v)))]"

definition json_FilterCondition :: "FilterCondition \<Rightarrow> jsvalue" where
  "json_FilterCondition f =
     JObject ([(''column'', JString (column f)),
               (''operator'', JString (FilterOperator_value (operator f)))]
              @ (if value f = JUndefined then [] else [(''value'', json_value (value f))]))"

definition json_PivotRequest :: "PivotRequest \<Rightarrow> jsvalue" where
  "json_PivotRequest r =
     JObject ([(''data_path'', JString (data_path r)),
               (''rows'', JArray (map JString (rows r))),
               (''columns'', JArray (map JString (columns r))),
               (''values'', JArray (map json_ValueWithAggregation (values r)))]
              @ (case filters r of
                   None \<Rightarrow> []
                 | Some fs \<Rightarrow> [(''filters'', JArray (map json_FilterCondition fs))]))"

text \<open>\<^verbatim>\<open>Object.keys\<close>\<close>

definition keys :: "jsvalue \<Rightarrow> string list" where
  "keys v = (case v of JObject kvs \<Rightarrow> map fst kvs | _ \<Rightarrow> [])"

text \<open>\<^verbatim>\<open>object[key]\<close>: a missing property reads as \<^verbatim>\<open>undefined\<close>.\<close>

definition get_property :: "jsvalue \<Rightarrow> string \<Rightarrow> jsvalue" where
  "get_property v key =
     (case v of
        JObject kvs \<Rightarrow> (case map_of kvs key of None \<Rightarrow> JUndefined | Some x \<Rightarrow> x)
      | _ \<Rightarrow> JUndefined)"

section \<open>\<^verbatim>\<open>PivotTable\<close>\<close>

text \<open>
  What the component renders: one of the two placeholders, or the table, given by its
  header row when there is one (whether the empty corner cell is present, and the
  header cells) and, for each row of the body, the row-header cells and the data cells.
  A cell is the value shown; the number formatting of \<^verbatim>\<open>toLocaleString\<close> and the
  React keys are left out.
\<close>

datatype view =
    Loading
  | Empty_state
  | Table "(bool \<times> string list) option" "(jsvalue list \<times> jsvalue list) list"

text \<open>\<^verbatim>\<open>row[key]\<close>: a missing property reads as \<^verbatim>\<open>undefined\<close>.\<close>

definition property :: "(string \<times> jsvalue) list \<Rightarrow> string \<Rightarrow> jsvalue" where
  "property row key = (case map_of row key of None \<Rightarrow> JUndefined | Some v \<Rightarrow> v)"

definition dataCell :: "PivotResult \<Rightarrow> (string \<times> jsvalue) list \<Rightarrow> string \<Rightarrow> jsvalue" where
  "dataCell result row colHeader =
     (let valueKeys =
            filter (\<lambda>key. CHR ''_'' \<in> set key \<and> key \<notin> set (row_headers result)) (map fst row);
          matchingKey = find (\<lambda>key. suffix colHeader key) valueKeys
      in case matchingKey of
           None \<Rightarrow> JString []
         | Some k \<Rightarrow> if k = [] then JString [] else property row k)"

text \<open>
  One \<^verbatim>\<open><tr>\<close> of the body. \<^verbatim>\<open>result.column_headers[0]\<close> is \<^verbatim>\<open>undefined\<close> when there
  are no column headers, and calling \<^verbatim>\<open>.map\<close> on it throws.
\<close>

definition tableRow ::
    "PivotResult \<Rightarrow> (string \<times> jsvalue) list \<Rightarrow> error + (jsvalue list \<times> jsvalue list)" where
  "tableRow result row =
     (case column_headers result of
        [] \<Rightarrow> Inl TypeError
      | h # _ \<Rightarrow> Inr (map (property row) (row_headers result), map (dataCell result row) h))"

fun tableRows ::
    "PivotResult \<Rightarrow> (string \<times> jsvalue) list list
       \<Rightarrow> error + (jsvalue list \<times> jsvalue list) list" where
  "tableRows result [] = Inr []"
| "tableRows result (row # rest) =
     (case tableRow result row of
        Inl e \<Rightarrow> Inl e
      | Inr tr \<Rightarrow> (case tableRows result rest of Inl e \<Rightarrow> Inl e | Inr trs \<Rightarrow> Inr (tr # trs)))"

definition PivotTable :: "PivotResult option \<Rightarrow> bool \<Rightarrow> error + view" where
  "PivotTable result isLoading =
     (if isLoading then Inr Loading
      else case result of
        None \<Rightarrow> Inr Empty_state
      | Some r \<Rightarrow>
          let thead = (if length (column_headers r) > 0
                       then Some (length (row_headers r) > 0, hd (column_headers r))
                       else None)
          in (case tableRows r (data r) of
                Inl e \<Rightarrow> Inl e
              | Inr tbody \<Rightarrow> Inr (Table thead tbody)))"

section \<open>The page as \<^verbatim>\<open>App\<close> renders it\<close>

text \<open>
  The events that reach the state of \<^verbatim>\<open>App\<close>. \<^verbatim>\<open>FileSelector\<close> calls back only with a
  path that is truthy, and its button is disabled while loading. The two configurators
  and the Generate button are rendered only when \<^verbatim>\<open>columns.length > 0\<close>; the callbacks
  of the configurators are taken with any arguments. The button, the only caller of
  \<^verbatim>\<open>generatePivot\<close>, is disabled when \<^verbatim>\<open>isLoading || valueFields.length === 0\<close>; the
  event of a click carries what the backend answers to the request. \<open>None\<close>: the page
  as rendered cannot raise the event.
\<close>

datatype app_event =
    File_selected string "string list"
  | Config_changed "string list" "string list" "ValueWithAggregation list"
  | Filters_changed "FilterCondition list"
  | Generate_clicked "string + PivotResult"

fun app_step :: "App \<Rightarrow> app_event \<Rightarrow> App option" where
  "app_step a (File_selected path cols) =
     (if path \<noteq> [] \<and> \<not> app_isLoading a then Some (handleFileSelected path cols a) else None)"
| "app_step a (Config_changed rs cs vs) =
     (if length (app_columns a) > 0 then Some (handleConfigChange rs cs vs a) else None)"
| "app_step a (Filters_changed fs) =
     (if length (app_columns a) > 0 then Some (handleFiltersChange fs a) else None)"
| "app_step a (Generate_clicked answer) =
     (if length (app_columns a) > 0 \<and> \<not> (app_isLoading a \<or> length (app_valueFields a) = 0)
      then Some (fst (generatePivot (\<lambda>request. answer) a)) else None)"

fun app_events :: "App \<Rightarrow> app_event list \<Rightarrow> App option" where
  "app_events a [] = Some a"
| "app_events a (e # es) =
     (case app_step a e of None \<Rightarrow> None | Some a' \<Rightarrow> app_events a' es)"

text \<open>
  What holds of the state between events: where the configurators and the button are
  rendered a file is selected, an error and a result are never held together, and
  nothing is loading.
\<close>

definition settled :: "App \<Rightarrow> bool" where
  "settled a =
     ((app_columns a = [] \<or> (app_filePath a \<noteq> None \<and> app_filePath a \<noteq> Some []))
      \<and> (app_error a = None \<or> app_pivotResult a = None)
      \<and> \<not> app_isLoading a)"

section \<open>Invariants of the configurator\<close>

text \<open>No field is in two dimensions, nor twice in one.\<close>

definition one_dimension_each :: "PivotConfigurator \<Rightarrow> bool" where
  "one_dimension_each c = distinct (rowFields c @ columnFields c @ map field (valueFields c))"

text \<open>The parent holds the lists the configurator last passed up.\<close>

definition app_agrees :: "PivotConfigurator \<times> App \<Rightarrow> bool" where
  "app_agrees s =
     (case s of (c, a) \<Rightarrow>
        app_rowFields a = rowFields c \<and> app_columnFields a = columnFields c
        \<and> app_valueFields a = valueFields c \<and> one_dimension_each c)"

section \<open>Facts about the string built-ins\<close>

lemma dropWhile_keeps_last:
  "xs \<noteq> [] \<Longrightarrow> \<not> P (last xs) \<Longrightarrow> dropWhile P xs \<noteq> [] \<and> last (dropWhile P xs) = last xs"
  by (induction xs) auto

lemma strip_both_ends_stable:
  "dropWhile P (rev (dropWhile P (rev (dropWhile P s)))) = rev (dropWhile P (rev (dropWhile P s)))"
proof (cases "dropWhile P s = []")
  case True
  then show ?thesis by (simp del: dropWhile_eq_Nil_conv)
next
  case False
  let ?a = "dropWhile P s"
  have h: "\<not> P (hd ?a)"
    using False by (simp add: hd_dropWhile)
  have "rev ?a \<noteq> []" "last (rev ?a) = hd ?a"
    using False by (simp_all add: last_rev)
  with h have d: "dropWhile P (rev ?a) \<noteq> [] \<and> last (dropWhile P (rev ?a)) = hd ?a"
    using dropWhile_keeps_last [of "rev ?a" P] by simp
  then have "hd (rev (dropWhile P (rev ?a))) = hd ?a"
    by (simp add: hd_rev)
  with h d show ?thesis
    by (simp add: dropWhile_eq_self_iff)
qed

lemma trim_idem: "trim (trim s) = trim s"
  unfolding trim_def by (simp add: strip_both_ends_stable)

lemma char_eq_code: "a = b \<longleftrightarrow> (of_char a :: nat) = of_char b"
  by simp

lemma toLowerChar_eq_lower:
  assumes "97 \<le> (of_char l :: nat)" "(of_char l :: nat) \<le> 122"
  shows "toLowerChar c = l \<longleftrightarrow> c = l \<or> (of_char c :: nat) + 32 = of_char l"
proof -
  have n: "(of_char c :: nat) < 256" by simp
  show ?thesis
    unfolding char_eq_code [of "toLowerChar c" l] char_eq_code [of c l] toLowerChar_def Let_def
    using assms n by (auto simp: of_char_of)
qed

lemma toLowerChar_letter:
  assumes "97 \<le> (of_char l :: nat)" "(of_char l :: nat) \<le> 122"
    and "(of_char u :: nat) + 32 = of_char l"
  shows "toLowerChar c = l \<longleftrightarrow> c \<in> set [l, u]"
proof -
  have "(of_char c :: nat) + 32 = of_char l \<longleftrightarrow> (of_char c :: nat) = of_char u"
    using assms(3) by linarith
  then have "(of_char c :: nat) + 32 = of_char l \<longleftrightarrow> c = u"
    by simp
  then show ?thesis
    using toLowerChar_eq_lower [OF assms(1,2)] by simp
qed

lemma map_eq_4:
  "map f v = [p, q, r, s] \<longleftrightarrow>
     (\<exists>a b c d. v = [a, b, c, d] \<and> f a = p \<and> f b = q \<and> f c = r \<and> f d = s)"
  by (auto simp: map_eq_Cons_conv)

lemma map_eq_5:
  "map f v = [p, q, r, s, t] \<longleftrightarrow>
     (\<exists>a b c d e. v = [a, b, c, d, e] \<and> f a = p \<and> f b = q \<and> f c = r \<and> f d = s \<and> f e = t)"
  by (auto simp: map_eq_Cons_conv)

text \<open>The texts the two boolean tests accept: the literal in any mix of cases, and nothing else.\<close>

lemma toLowerCase_true:
  "toLowerCase v = ''true'' \<longleftrightarrow>
     (\<exists>a b c d. v = [a, b, c, d] \<and> a \<in> set ''tT'' \<and> b \<in> set ''rR'' \<and> c \<in> set ''uU''
        \<and> d \<in> set ''eE'')"
proof -
  have t: "\<And>x. toLowerChar x = CHR ''t'' \<longleftrightarrow> x \<in> set ''tT''"
    by (rule toLowerChar_letter) simp_all
  have r: "\<And>x. toLowerChar x = CHR ''r'' \<longleftrightarrow> x \<in> set ''rR''"
    by (rule toLowerChar_letter) simp_all
  have u: "\<And>x. toLowerChar x = CHR ''u'' \<longleftrightarrow> x \<in> set ''uU''"
    by (rule toLowerChar_letter) simp_all
  have e: "\<And>x. toLowerChar x = CHR ''e'' \<longleftrightarrow> x \<in> set ''eE''"
    by (rule toLowerChar_letter) simp_all
  show ?thesis
    unfolding toLowerCase_def by (simp only: map_eq_4 t r u e)
qed

lemma toLowerCase_false:
  "toLowerCase v = ''false'' \<longleftrightarrow>
     (\<exists>a b c d e. v = [a, b, c, d, e] \<and> a \<in> set ''fF'' \<and> b \<in> set ''aA'' \<and> c \<in> set ''lL''
        \<and> d \<in> set ''sS'' \<and> e \<in> set ''eE'')"
proof -
  have f: "\<And>x. toLowerChar x = CHR ''f'' \<longleftrightarrow> x \<in> set ''fF''"
    by (rule toLowerChar_letter) simp_all
  have a: "\<And>x. toLowerChar x = CHR ''a'' \<longleftrightarrow> x \<in> set ''aA''"
    by (rule toLowerChar_letter) simp_all
  have l: "\<And>x. toLowerChar x = CHR ''l'' \<longleftrightarrow> x \<in> set ''lL''"
    by (rule toLowerChar_letter) simp_all
  have s: "\<And>x. toLowerChar x = CHR ''s'' \<longleftrightarrow> x \<in> set ''sS''"
    by (rule toLowerChar_letter) simp_all
  have e: "\<And>x. toLowerChar x = CHR ''e'' \<longleftrightarrow> x \<in> set ''eE''"
    by (rule toLowerChar_letter) simp_all
  show ?thesis
    unfolding toLowerCase_def by (simp only: map_eq_5 f a l s e)
qed

text \<open>
  The element conversion of the \<^verbatim>\<open>In\<close> branch is the scalar conversion: its items are
  trimmed, so its test \<^verbatim>\<open>item !== ""\<close> is the scalar test \<^verbatim>\<open>value.trim() !== ""\<close>.
\<close>

lemma parseItem_trim_scalar:
  "op \<noteq> In \<Longrightarrow> parseItem (trim x) = coerceValue op (trim x)"
  by (simp add: parseItem_def coerceValue_def trim_idem)

lemma In_list_branch:
  assumes "isNaN (Number v) \<or> trim v = []"
    and "toLowerCase v \<noteq> ''true''" "toLowerCase v \<noteq> ''false''"
  shows "coerceValue In v = JArray (map (\<lambda>x. coerceValue Equal (trim x)) (split (CHR '','') v))"
  using assms by (auto simp: coerceValue_def parseItem_trim_scalar [of Equal])

section \<open>Filter value coercion\<close>

text \<open>
  C1, as amended. For a condition whose operator is not \<open>In\<close>, the text typed into the
  value input is coerced in this order: a text that is not blank and that \<^verbatim>\<open>Number\<close>
  parses becomes that number; else the text \<^verbatim>\<open>true\<close> or \<^verbatim>\<open>false\<close>, in any mix of
  cases, becomes the boolean; else the text is kept as the string it is. For every
  operator and every text the update returns: it replaces the value of the condition at
  the index, and changes nothing else.
\<close>

theorem updateFilter_value_coercion:
  assumes "index < length fs"
  shows "\<exists>w. updateFilter index (Set_value v) fs = Inr (fs[index := (fs ! index)\<lparr>value := w\<rparr>])
           \<and> (operator (fs ! index) \<noteq> In \<longrightarrow>
                w = (if \<not> isNaN (Number v) \<and> trim v \<noteq> [] then JNumber (Number v)
                     else if toLowerCase v = ''true'' then JBoolean True
                     else if toLowerCase v = ''false'' then JBoolean False
                     else JString v))"
  using assms
  by (intro exI [of _ "coerceValue (operator (fs ! index)) v"])
     (simp add: updateFilter_def coerceValue_def)

text \<open>C1, witness: the text \<^verbatim>\<open>TRUE\<close> typed into an \<open>Equal\<close> condition becomes the boolean.\<close>

theorem updateFilter_value_coercion_witness:
  "(0::nat) < length [\<lparr>column = ''region'', operator = Equal, value = JString []\<rparr>]
   \<and> updateFilter 0 (Set_value ''TRUE'')
         [\<lparr>column = ''region'', operator = Equal, value = JString []\<rparr>]
       = Inr [\<lparr>column = ''region'', operator = Equal, value = JBoolean True\<rparr>]"
proof -
  let ?fs = "[\<lparr>column = ''region'', operator = Equal, value = JString []\<rparr>]"
  have h: "(0::nat) < length ?fs"
    by simp
  have e: "updateFilter 0 (Set_value ''TRUE'') ?fs
             = Inr [\<lparr>column = ''region'', operator = Equal, value = JBoolean True\<rparr>]"
    by code_simp
  show ?thesis
    using h e updateFilter_value_coercion [OF h, of "''TRUE''"] by simp
qed

text \<open>
  C1, counterexample to the claim as stated: under the operator \<open>In\<close> the text \<^verbatim>\<open>a,b\<close>
  is no number and no boolean literal, yet it is not kept as a string: it becomes a list.
\<close>

theorem updateFilter_value_kept_string_counterexample:
  "isNaN (Number ''a,b'') \<and> toLowerCase ''a,b'' \<noteq> ''true'' \<and> toLowerCase ''a,b'' \<noteq> ''false''
   \<and> updateFilter 0 (Set_value ''a,b'')
         [\<lparr>column = ''region'', operator = In, value = JString []\<rparr>]
       = Inr [\<lparr>column = ''region'', operator = In, value = JArray [JString ''a'', JString ''b'']\<rparr>]
   \<and> JArray [JString ''a'', JString ''b''] \<noteq> JString ''a,b''"
  by code_simp

text \<open>
  C2, the code at the failing input: under the operator \<open>In\<close> the text \<^verbatim>\<open>5\<close> is stored
  as the number 5, not as a list holding it.
\<close>

theorem updateFilter_In_numeric_text:
  "updateFilter 0 (Set_value ''5'') [\<lparr>column = ''region'', operator = In, value = JString []\<rparr>]
     = Inr [\<lparr>column = ''region'', operator = In, value = JNumber (Finite 5)\<rparr>]"
  by code_simp

section \<open>The request and its enums on the wire\<close>

text \<open>
  C3, as amended. A \<^verbatim>\<open>PivotRequest\<close> consists of exactly five fields: \<^verbatim>\<open>data_path\<close> (a
  string), \<^verbatim>\<open>rows\<close> and \<^verbatim>\<open>columns\<close> (lists of strings), \<^verbatim>\<open>values\<close> (a list of
  \<^verbatim>\<open>ValueWithAggregation\<close>) and the optional \<^verbatim>\<open>filters\<close> (a list of
  \<^verbatim>\<open>FilterCondition\<close>). A request is determined by these five, and the object sent has
  these keys, \<^verbatim>\<open>filters\<close> only when filters are present.
\<close>

theorem PivotRequest_fields:
  "r = \<lparr>data_path = data_path r, rows = rows r, columns = columns r, values = values r,
         filters = filters r\<rparr>
   \<and> keys (json_PivotRequest r)
       = [''data_path'', ''rows'', ''columns'', ''values'']
         @ (case filters r of None \<Rightarrow> [] | Some fs \<Rightarrow> [''filters''])"
  by (simp add: keys_def json_PivotRequest_def split: option.splits)

text \<open>
  C3, counterexample to the claim as stated: the request \<^verbatim>\<open>generatePivot\<close> sends for a
  selected file carries the key \<^verbatim>\<open>data_path\<close>, which is none of the four fields named.
\<close>

theorem PivotRequest_four_fields_counterexample:
  "snd (generatePivot (\<lambda>request. Inl ''no backend'')
          (App_init\<lparr>app_filePath := Some ''sales.csv'', app_rowFields := [''region''],
                     app_valueFields := [\<lparr>field = ''amount'', aggregation = Sum\<rparr>]\<rparr>))
     = [\<lparr>data_path = ''sales.csv'', rows = [''region''], columns = [],
          values = [\<lparr>field = ''amount'', aggregation = Sum\<rparr>], filters = None\<rparr>]
   \<and> keys (json_PivotRequest
              \<lparr>data_path = ''sales.csv'', rows = [''region''], columns = [],
               values = [\<lparr>field = ''amount'', aggregation = Sum\<rparr>], filters = None\<rparr>)
       = [''data_path'', ''rows'', ''columns'', ''values'']
   \<and> ''data_path'' \<notin> set [''rows'', ''columns'', ''values'', ''filters'']"
  by code_simp

lemma enum_value_is_name:
  "AggregationType_value x = AggregationType_name x"
  "FilterOperator_value y = FilterOperator_name y"
  by (cases x; simp) (cases y; simp)

text \<open>
  C7. In every request \<^verbatim>\<open>generatePivot\<close> sends, each value field carries its
  aggregation, and each filter condition its operator, as the string that is the name
  of the enum member: \<^verbatim>\<open>Sum\<close> as \<^verbatim>\<open>"Sum"\<close>, \<^verbatim>\<open>GreaterThanOrEqual\<close> as
  \<^verbatim>\<open>"GreaterThanOrEqual"\<close>, and so for every member of the two enums.
\<close>

theorem enums_on_wire_by_name:
  assumes "request \<in> set (snd (generatePivot run_pivot a))"
  shows "get_property (json_PivotRequest request) ''values''
           = JArray (map (\<lambda>v. JObject [(''field'', JString (field v)),
                                        (''aggregation'',
                                           JString (AggregationType_name (aggregation v)))])
                       (app_valueFields a))
     \<and> get_property (json_PivotRequest request) ''filters''
           = (if app_filters a = [] then JUndefined
              else JArray (map (\<lambda>f. JObject
                     ([(''column'', JString (column f)),
                       (''operator'', JString (FilterOperator_name (operator f)))]
                      @ (if value f = JUndefined then []
                         else [(''value'', json_value (value f))])))
                     (app_filters a)))
     \<and> map AggregationType_name [Sum, Mean, Count, Min_agg, Max_agg, First, Last, Median, Std, Var]
           = [''Sum'', ''Mean'', ''Count'', ''Min'', ''Max'', ''First'', ''Last'', ''Median'',
              ''Std'', ''Var'']
     \<and> map FilterOperator_name
             [Equal, NotEqual, GreaterThan, LessThan, GreaterThanOrEqual, LessThanOrEqual,
              Contains, In]
           = [''Equal'', ''NotEqual'', ''GreaterThan'', ''LessThan'', ''GreaterThanOrEqual'',
              ''LessThanOrEqual'', ''Contains'', ''In'']"
proof -
  from assms have r: "values request = app_valueFields a"
    "filters request = (if app_filters a = [] then None else Some (app_filters a))"
    by (auto simp: generatePivot_def Let_def split: if_splits sum.splits)
  show ?thesis
    by (simp add: r get_property_def json_PivotRequest_def json_ValueWithAggregation_def
                  json_FilterCondition_def enum_value_is_name cong: map_cong)
qed

text \<open>
  C7, witness: the JSON of a request with a \<open>Sum\<close> value field and a
  \<open>GreaterThanOrEqual\<close> filter.
\<close>

theorem enums_on_wire_by_name_witness:
  "snd (generatePivot (\<lambda>request. Inl ''no backend'')
          (App_init\<lparr>app_filePath := Some ''sales.csv'', app_rowFields := [''region''],
                     app_valueFields := [\<lparr>field = ''amount'', aggregation = Sum\<rparr>],
                     app_filters := [\<lparr>column = ''amount'', operator = GreaterThanOrEqual,
                                      value = JNumber (Finite 15)\<rparr>]\<rparr>))
     = [\<lparr>data_path = ''sales.csv'', rows = [''region''], columns = [],
          values = [\<lparr>field = ''amount'', aggregation = Sum\<rparr>],
          filters = Some [\<lparr>column = ''amount'', operator = GreaterThanOrEqual,
                           value = JNumber (Finite 15)\<rparr>]\<rparr>]
   \<and> json_PivotRequest
         \<lparr>data_path = ''sales.csv'', rows = [''region''], columns = [],
          values = [\<lparr>field = ''amount'', aggregation = Sum\<rparr>],
          filters = Some [\<lparr>column = ''amount'', operator = GreaterThanOrEqual,
                           value = JNumber (Finite 15)\<rparr>]\<rparr>
       = JObject [(''data_path'', JString ''sales.csv''),
                  (''rows'', JArray [JString ''region'']),
                  (''columns'', JArray []),
                  (''values'', JArray [JObject [(''field'', JString ''amount''),
                                                (''aggregation'', JString ''Sum'')]]),
                  (''filters'', JArray [JObject [(''column'', JString ''amount''),
                                                 (''operator'', JString ''GreaterThanOrEqual''),
                                                 (''value'', JNumber (Finite 15))]])]"
proof -
  let ?a = "App_init\<lparr>app_filePath := Some ''sales.csv'', app_rowFields := [''region''],
                     app_valueFields := [\<lparr>field = ''amount'', aggregation = Sum\<rparr>],
                     app_filters := [\<lparr>column = ''amount'', operator = GreaterThanOrEqual,
                                      value = JNumber (Finite 15)\<rparr>]\<rparr>"
  let ?r = "\<lparr>data_path = ''sales.csv'', rows = [''region''], columns = [],
          values = [\<lparr>field = ''amount'', aggregation = Sum\<rparr>],
          filters = Some [\<lparr>column = ''amount'', operator = GreaterThanOrEqual,
                           value = JNumber (Finite 15)\<rparr>]\<rparr>"
  have s: "snd (generatePivot (\<lambda>request. Inl ''no backend'') ?a) = [?r]"
    by code_simp
  then have h: "?r \<in> set (snd (generatePivot (\<lambda>request. Inl ''no backend'') ?a))"
    by simp
  have j: "json_PivotRequest ?r
       = JObject [(''data_path'', JString ''sales.csv''),
                  (''rows'', JArray [JString ''region'']),
                  (''columns'', JArray []),
                  (''values'', JArray [JObject [(''field'', JString ''amount''),
                                                (''aggregation'', JString ''Sum'')]]),
                  (''filters'', JArray [JObject [(''column'', JString ''amount''),
                                                 (''operator'', JString ''GreaterThanOrEqual''),
                                                 (''value'', JNumber (Finite 15))]])]"
    by code_simp
  show ?thesis
    using s j enums_on_wire_by_name [OF h] by simp
qed

section \<open>generatePivot\<close>


lemma generatePivot_past_checks:
  assumes "app_filePath a = Some p" "p \<noteq> []" "app_valueFields a \<noteq> []"
  shows "\<exists>request. snd (generatePivot run_pivot a) = [request]
     \<and> app_isLoading (fst (generatePivot run_pivot a)) = False
     \<and> app_filePath (fst (generatePivot run_pivot a)) = app_filePath a
     \<and> app_columns (fst (generatePivot run_pivot a)) = app_columns a
     \<and> (case run_pivot request of
           Inr result \<Rightarrow>
             app_pivotResult (fst (generatePivot run_pivot a)) = Some result
             \<and> app_error (fst (generatePivot run_pivot a)) = None
         | Inl err \<Rightarrow>
             app_error (fst (generatePivot run_pivot a)) = Some (''Error generating pivot: '' @ err)
             \<and> app_pivotResult (fst (generatePivot run_pivot a)) = None)"
  using assms by (simp add: generatePivot_def Let_def split: sum.splits)

lemma app_step_settled:
  assumes "app_step a e = Some a'" "settled a"
  shows "settled a'"
proof (cases e)
  case (File_selected path cols)
  with assms show ?thesis
    by (auto simp: settled_def handleFileSelected_def split: if_splits)
next
  case (Config_changed rs cs vs)
  with assms show ?thesis
    by (auto simp: settled_def handleConfigChange_def split: if_splits)
next
  case (Filters_changed fs)
  with assms show ?thesis
    by (auto simp: settled_def handleFiltersChange_def split: if_splits)
next
  case (Generate_clicked answer)
  with assms have c: "app_columns a \<noteq> []" and v: "app_valueFields a \<noteq> []"
    and a': "a' = fst (generatePivot (\<lambda>request. answer) a)"
    by (auto split: if_splits)
  from c assms(2) obtain p where p: "app_filePath a = Some p" "p \<noteq> []"
    by (auto simp: settled_def)
  from generatePivot_past_checks [OF p v, of "\<lambda>request. answer"] c p
  show ?thesis
    unfolding a' settled_def by (cases answer) auto
qed

lemma app_events_settled:
  assumes "app_events a es = Some a'" "settled a"
  shows "settled a'"
  using assms
proof (induction es arbitrary: a)
  case Nil
  then show ?case by simp
next
  case (Cons e es)
  from Cons.prems(1) obtain a1 where s: "app_step a e = Some a1"
    and r: "app_events a1 es = Some a'"
    by (auto split: option.splits)
  from Cons.IH [OF r app_step_settled [OF s Cons.prems(2)]] show ?case .
qed

lemma settled_init: "settled App_init"
  by (simp add: settled_def App_init_def)



text \<open>
  C5. In no state the page can reach are an error and a result held together, and
  every click of the Generate button there makes one request and ends in one of two
  states: \<^verbatim>\<open>pivotResult\<close> holds the result the backend returned and the error is null, or
  the error is set and \<^verbatim>\<open>pivotResult\<close> is null.
\<close>

theorem generatePivot_all_or_nothing:
  assumes "app_events App_init es = Some a"
  shows "(app_error a = None \<or> app_pivotResult a = None)
     \<and> (\<forall>answer a'. app_step a (Generate_clicked answer) = Some a' \<longrightarrow>
           a' = fst (generatePivot (\<lambda>request. answer) a)
           \<and> (\<exists>request. snd (generatePivot (\<lambda>request. answer) a) = [request])
           \<and> (case answer of
                 Inr result \<Rightarrow> app_pivotResult a' = Some result \<and> app_error a' = None
               | Inl err \<Rightarrow>
                   app_error a' = Some (''Error generating pivot: '' @ err)
                   \<and> app_pivotResult a' = None))"
proof (intro conjI allI impI)
  have s: "settled a"
    using app_events_settled [OF assms settled_init] .
  then show "app_error a = None \<or> app_pivotResult a = None"
    by (simp add: settled_def)
  fix answer a'
  assume g: "app_step a (Generate_clicked answer) = Some a'"
  then have c: "app_columns a \<noteq> []" and v: "app_valueFields a \<noteq> []"
    and a': "a' = fst (generatePivot (\<lambda>request. answer) a)"
    by (auto split: if_splits)
  from c s obtain p where p: "app_filePath a = Some p" "p \<noteq> []"
    by (auto simp: settled_def)
  note d = generatePivot_past_checks [OF p v, of "\<lambda>request. answer"]
  show "a' = fst (generatePivot (\<lambda>request. answer) a)"
    by (rule a')
  show "\<exists>request. snd (generatePivot (\<lambda>request. answer) a) = [request]"
    using d by blast
  show "case answer of
          Inr result \<Rightarrow> app_pivotResult a' = Some result \<and> app_error a' = None
        | Inl err \<Rightarrow>
            app_error a' = Some (''Error generating pivot: '' @ err)
            \<and> app_pivotResult a' = None"
    using d unfolding a' by (cases answer) auto
qed

text \<open>
  C5, witness: a pivot succeeds, and the next one is rejected by the backend.
\<close>

theorem generatePivot_all_or_nothing_witness:
  "app_events App_init
       [File_selected ''sales.csv'' [''region'', ''amount''],
        Config_changed [''region''] [] [\<lparr>field = ''amount'', aggregation = Sum\<rparr>],
        Generate_clicked (Inr \<lparr>data = [], column_headers = [], row_headers = [''region'']\<rparr>)]
     = Some (App_init\<lparr>app_filePath := Some ''sales.csv'', app_columns := [''region'', ''amount''],
                       app_rowFields := [''region''],
                       app_valueFields := [\<lparr>field = ''amount'', aggregation = Sum\<rparr>],
                       app_pivotResult :=
                         Some \<lparr>data = [], column_headers = [], row_headers = [''region'']\<rparr>\<rparr>)
   \<and> app_step
         (App_init\<lparr>app_filePath := Some ''sales.csv'', app_columns := [''region'', ''amount''],
                       app_rowFields := [''region''],
                       app_valueFields := [\<lparr>field = ''amount'', aggregation = Sum\<rparr>],
                       app_pivotResult :=
                         Some \<lparr>data = [], column_headers = [], row_headers = [''region'']\<rparr>\<rparr>)
         (Generate_clicked (Inl ''no such column''))
     = Some (App_init\<lparr>app_filePath := Some ''sales.csv'', app_columns := [''region'', ''amount''],
                       app_rowFields := [''region''],
                       app_valueFields := [\<lparr>field = ''amount'', aggregation = Sum\<rparr>],
                       app_error := Some ''Error generating pivot: no such column''\<rparr>)"
proof -
  let ?es = "[File_selected ''sales.csv'' [''region'', ''amount''],
        Config_changed [''region''] [] [\<lparr>field = ''amount'', aggregation = Sum\<rparr>],
        Generate_clicked (Inr \<lparr>data = [], column_headers = [], row_headers = [''region'']\<rparr>)]"
  let ?a = "App_init\<lparr>app_filePath := Some ''sales.csv'', app_columns := [''region'', ''amount''],
                       app_rowFields := [''region''],
                       app_valueFields := [\<lparr>field = ''amount'', aggregation = Sum\<rparr>],
                       app_pivotResult :=
                         Some \<lparr>data = [], column_headers = [], row_headers = [''region'']\<rparr>\<rparr>"
  let ?b = "App_init\<lparr>app_filePath := Some ''sales.csv'', app_columns := [''region'', ''amount''],
                       app_rowFields := [''region''],
                       app_valueFields := [\<lparr>field = ''amount'', aggregation = Sum\<rparr>],
                       app_error := Some ''Error generating pivot: no such column''\<rparr>"
  have e: "app_events App_init ?es = Some ?a"
    by code_simp
  have g: "app_step ?a (Generate_clicked (Inl ''no such column'')) = Some ?b"
    by code_simp
  show ?thesis
    using e g generatePivot_all_or_nothing [OF e] by simp
qed

section \<open>Operators reachable through the filter form\<close>

lemma removeFilter_subset: "set (removeFilter i fs) \<subseteq> set fs"
  by (auto simp: removeFilter_def in_set_enumerate_eq)

lemma updateFilter_operators:
  assumes "updateFilter i upd fs = Inr fs'" "f \<in> set fs'"
  shows "f \<in> set fs \<or> operator f = operator (fs ! i) \<and> (\<forall>op. upd \<noteq> Set_operator op)
         \<or> upd = Set_operator (operator f)"
proof -
  from assms(1) have i: "i < length fs"
    and fs': "fs' = fs[i := (case upd of
                Set_operator op \<Rightarrow> (fs ! i)\<lparr>operator := op\<rparr>
              | Set_column c \<Rightarrow> (fs ! i)\<lparr>column := c\<rparr>
              | Set_value v \<Rightarrow> (fs ! i)\<lparr>value := coerceValue (operator (fs ! i)) v\<rparr>)]"
    by (auto simp: updateFilter_def Let_def split: if_splits)
  from assms(2) fs' consider "f \<in> set fs"
    | "f = (case upd of
                Set_operator op \<Rightarrow> (fs ! i)\<lparr>operator := op\<rparr>
              | Set_column c \<Rightarrow> (fs ! i)\<lparr>column := c\<rparr>
              | Set_value v \<Rightarrow> (fs ! i)\<lparr>value := coerceValue (operator (fs ! i)) v\<rparr>)"
    using set_update_subset_insert [of fs i] by blast
  then show ?thesis
    by cases (auto split: field_update.splits)
qed

lemma filter_event_step_operators:
  assumes "filter_event_step cols fs e = Some fs'"
    and "\<forall>f \<in> set fs. operator f \<in> set operatorOptions"
  shows "\<forall>f \<in> set fs'. operator f \<in> set operatorOptions"
proof (cases e)
  case Click_add
  with assms show ?thesis
    by (auto simp: addFilter_def operatorOptions_def split: list.splits)
next
  case (Click_remove i)
  with assms show ?thesis
    using removeFilter_subset [of i fs] by (auto split: if_splits)
next
  case (Select_column i c)
  with assms show ?thesis
    by (auto simp: handled_def split: if_splits sum.splits dest!: updateFilter_operators)
next
  case (Select_operator i op)
  with assms show ?thesis
    by (auto simp: handled_def split: if_splits sum.splits dest!: updateFilter_operators)
next
  case (Input_value i v)
  with assms show ?thesis
    by (auto simp: handled_def split: if_splits sum.splits dest!: updateFilter_operators)
qed

lemma filter_events_operators:
  assumes "filter_events cols fs es = Some fs'"
    and "\<forall>f \<in> set fs. operator f \<in> set operatorOptions"
  shows "\<forall>f \<in> set fs'. operator f \<in> set operatorOptions"
  using assms
proof (induction es arbitrary: fs)
  case Nil
  then show ?case by simp
next
  case (Cons e es)
  from Cons.prems(1) obtain fs1 where s: "filter_event_step cols fs e = Some fs1"
    and r: "filter_events cols fs1 es = Some fs'"
    by (auto split: option.splits)
  from filter_event_step_operators [OF s Cons.prems(2)] Cons.IH [OF r] show ?case
    by blast
qed

text \<open>
  C9. Whatever the user does in the filter form, starting from no filters, every
  condition of the list has one of the seven operators the form offers; none has
  \<open>Contains\<close>.
\<close>

theorem filter_form_never_Contains:
  assumes "filter_events cols [] es = Some fs"
  shows "\<forall>f \<in> set fs. operator f \<in> set operatorOptions \<and> operator f \<noteq> Contains"
proof -
  have "\<forall>f \<in> set fs. operator f \<in> set operatorOptions"
    using filter_events_operators [OF assms] by simp
  then show ?thesis
    by (auto simp: operatorOptions_def)
qed

text \<open>
  C9, witness: two conditions are added and edited.
\<close>

theorem filter_form_never_Contains_witness:
  "filter_events [''region'', ''amount''] []
       [Click_add, Select_operator 0 In, Input_value 0 ''east, west'', Click_add,
        Select_column 1 ''amount'', Select_operator 1 GreaterThan, Input_value 1 ''15'']
     = Some [\<lparr>column = ''region'', operator = In,
               value = JArray [JString ''east'', JString ''west'']\<rparr>,
             \<lparr>column = ''amount'', operator = GreaterThan, value = JNumber (Finite 15)\<rparr>]
   \<and> In \<in> set operatorOptions \<and> In \<noteq> Contains
   \<and> GreaterThan \<in> set operatorOptions \<and> GreaterThan \<noteq> Contains"
proof -
  have e: "filter_events [''region'', ''amount''] []
       [Click_add, Select_operator 0 In, Input_value 0 ''east, west'', Click_add,
        Select_column 1 ''amount'', Select_operator 1 GreaterThan, Input_value 1 ''15'']
     = Some [\<lparr>column = ''region'', operator = In,
               value = JArray [JString ''east'', JString ''west'']\<rparr>,
             \<lparr>column = ''amount'', operator = GreaterThan, value = JNumber (Finite 15)\<rparr>]"
    by code_simp
  show ?thesis
    using e filter_form_never_Contains [OF e] by simp
qed

section \<open>Dimension assignment\<close>

lemma field_filter:
  "map field (filter (\<lambda>v. field v \<noteq> fld) vs) = filter (\<lambda>f. f \<noteq> fld) (map field vs)"
  by (induction vs) auto

lemma distinct_remove_then_add:
  assumes "distinct (rs @ cs @ vs)"
  shows "distinct (filter (\<lambda>f. f \<noteq> x) rs @ filter (\<lambda>f. f \<noteq> x) cs @ filter (\<lambda>f. f \<noteq> x) vs)"
    and "distinct ((filter (\<lambda>f. f \<noteq> x) rs @ [x]) @ filter (\<lambda>f. f \<noteq> x) cs @ filter (\<lambda>f. f \<noteq> x) vs)"
    and "distinct (filter (\<lambda>f. f \<noteq> x) rs @ (filter (\<lambda>f. f \<noteq> x) cs @ [x]) @ filter (\<lambda>f. f \<noteq> x) vs)"
    and "distinct (filter (\<lambda>f. f \<noteq> x) rs @ filter (\<lambda>f. f \<noteq> x) cs @ filter (\<lambda>f. f \<noteq> x) vs @ [x])"
  using assms by auto

lemma handleDimensionChange_one_dimension_each:
  assumes "one_dimension_each c"
  shows "one_dimension_each (handleDimensionChange fld dimension c)"
proof -
  have d: "distinct (rowFields c @ columnFields c @ map field (valueFields c))"
    using assms by (simp add: one_dimension_each_def)
  show ?thesis
    using distinct_remove_then_add [OF d, of fld]
    by (cases dimension)
       (simp_all add: one_dimension_each_def handleDimensionChange_def Let_def field_filter)
qed

lemma handleAggregationChange_fields:
  "map field (valueFields (handleAggregationChange fld agg c)) = map field (valueFields c)"
  "rowFields (handleAggregationChange fld agg c) = rowFields c"
  "columnFields (handleAggregationChange fld agg c) = columnFields c"
  by (simp_all add: handleAggregationChange_def comp_def cong: map_cong)

lemma handleAggregationChange_one_dimension_each:
  "one_dimension_each c \<Longrightarrow> one_dimension_each (handleAggregationChange fld agg c)"
  by (simp add: one_dimension_each_def handleAggregationChange_fields)

lemma config_step_agrees: "app_agrees s \<Longrightarrow> app_agrees (config_step s e)"
proof (cases s; cases e)
  fix c a fld dimension
  assume "app_agrees s" "s = (c, a)" "e = Dimension_change fld dimension"
  then show "app_agrees (config_step s e)"
    using handleDimensionChange_one_dimension_each [of c fld dimension]
    by (simp add: app_agrees_def Let_def handleConfigChange_def)
next
  fix c a fld agg
  assume "app_agrees s" "s = (c, a)" "e = Aggregation_change fld agg"
  then show "app_agrees (config_step s e)"
    using handleAggregationChange_one_dimension_each [of c fld agg]
    by (simp add: app_agrees_def Let_def handleConfigChange_def handleAggregationChange_fields)
qed

lemma config_events_agrees: "app_agrees s \<Longrightarrow> app_agrees (config_events s es)"
  unfolding config_events_def
  by (induction es arbitrary: s) (simp_all add: config_step_agrees)

text \<open>
  C6. After any sequence of dimension assignments and aggregation changes, starting
  with nothing assigned, no field is in two of the lists of rows, columns and values
  (nor twice in one), and a request \<^verbatim>\<open>generatePivot\<close> then sends carries these lists: its
  rows and columns share no field.
\<close>

theorem dimensions_disjoint:
  assumes "app_rowFields a0 = []" "app_columnFields a0 = []" "app_valueFields a0 = []"
    and "config_events (PivotConfigurator_init, a0) es = (c, a)"
  shows "distinct (rowFields c @ columnFields c @ map field (valueFields c))
     \<and> (\<forall>request \<in> set (snd (generatePivot run_pivot a)).
           rows request = rowFields c \<and> columns request = columnFields c
           \<and> values request = valueFields c
           \<and> distinct (rows request @ columns request @ map field (values request)))"
proof -
  have "app_agrees (PivotConfigurator_init, a0)"
    using assms(1-3) by (simp add: app_agrees_def one_dimension_each_def PivotConfigurator_init_def)
  then have "app_agrees (c, a)"
    using config_events_agrees [of "(PivotConfigurator_init, a0)" es] assms(4) by simp
  then show ?thesis
    by (auto simp: app_agrees_def one_dimension_each_def generatePivot_def Let_def
             split: if_splits sum.splits)
qed

text \<open>
  C6, witness: two fields are moved between the dimensions, and the request is sent.
\<close>

theorem dimensions_disjoint_witness:
  "config_events (PivotConfigurator_init, App_init\<lparr>app_filePath := Some ''sales.csv''\<rparr>)
       [Dimension_change ''region'' Dim_rows, Dimension_change ''amount'' Dim_rows,
        Dimension_change ''region'' Dim_columns, Dimension_change ''amount'' Dim_values]
     = (\<lparr>rowFields = [], columnFields = [''region''],
         valueFields = [\<lparr>field = ''amount'', aggregation = Sum\<rparr>]\<rparr>,
        App_init\<lparr>app_filePath := Some ''sales.csv'', app_columnFields := [''region''],
                  app_valueFields := [\<lparr>field = ''amount'', aggregation = Sum\<rparr>]\<rparr>)
   \<and> snd (generatePivot (\<lambda>request. Inl ''no backend'')
            (App_init\<lparr>app_filePath := Some ''sales.csv'', app_columnFields := [''region''],
                  app_valueFields := [\<lparr>field = ''amount'', aggregation = Sum\<rparr>]\<rparr>))
       = [\<lparr>data_path = ''sales.csv'', rows = [], columns = [''region''],
            values = [\<lparr>field = ''amount'', aggregation = Sum\<rparr>], filters = None\<rparr>]
   \<and> distinct ([] @ [''region''] @ map field [\<lparr>field = ''amount'', aggregation = Sum\<rparr>])"
proof -
  let ?start = "App_init\<lparr>app_filePath := Some ''sales.csv''\<rparr>"
  let ?c = "\<lparr>rowFields = [], columnFields = [''region''],
         valueFields = [\<lparr>field = ''amount'', aggregation = Sum\<rparr>]\<rparr>"
  let ?a = "App_init\<lparr>app_filePath := Some ''sales.csv'', app_columnFields := [''region''],
                  app_valueFields := [\<lparr>field = ''amount'', aggregation = Sum\<rparr>]\<rparr>"
  have h: "app_rowFields ?start = []" "app_columnFields ?start = []" "app_valueFields ?start = []"
    by (simp_all add: App_init_def)
  have e: "config_events (PivotConfigurator_init, ?start)
       [Dimension_change ''region'' Dim_rows, Dimension_change ''amount'' Dim_rows,
        Dimension_change ''region'' Dim_columns, Dimension_change ''amount'' Dim_values]
     = (?c, ?a)"
    by code_simp
  have g: "snd (generatePivot (\<lambda>request. Inl ''no backend'') ?a)
       = [\<lparr>data_path = ''sales.csv'', rows = [], columns = [''region''],
            values = [\<lparr>field = ''amount'', aggregation = Sum\<rparr>], filters = None\<rparr>]"
    by code_simp
  show ?thesis
    using e g dimensions_disjoint [OF h e, of "\<lambda>request. Inl ''no backend''"] by simp
qed


section \<open>Default aggregation\<close>



lemma config_step_app_values:
  "app_valueFields (snd (config_step s e)) = valueFields (fst (config_step s e))"
  by (cases s; cases e) (simp_all add: Let_def handleConfigChange_def)



section \<open>Rendering\<close>

lemma tableRows_no_headers:
  "column_headers r = [] \<Longrightarrow> rs \<noteq> [] \<Longrightarrow> tableRows r rs = Inl TypeError"
  by (cases rs) (simp_all add: tableRow_def)

lemma tableRows_with_headers:
  "column_headers r \<noteq> [] \<Longrightarrow> \<exists>trs. tableRows r rs = Inr trs"
  by (induction rs) (auto simp: tableRow_def split: list.splits)

lemma PivotTable_throws_iff:
  "(\<exists>e. PivotTable (Some r) False = Inl e) \<longleftrightarrow> data r \<noteq> [] \<and> column_headers r = []"
proof (cases "column_headers r = []")
  case True
  then show ?thesis
    using tableRows_no_headers [of r "data r"]
    by (cases "data r = []") (simp_all add: PivotTable_def)
next
  case False
  then show ?thesis
    using tableRows_with_headers [of r "data r"] by (auto simp: PivotTable_def Let_def)
qed

text \<open>
  C8, the code at the failing input: a result with one row of data and no column
  headers. The header row is guarded by the length of \<^verbatim>\<open>column_headers\<close>; the body is not,
  and rendering the row throws.
\<close>

theorem PivotTable_no_column_headers_throws:
  "PivotTable
     (Some \<lparr>data = [[(''region'', JString ''east''), (''amount_Sum'', JNumber (Finite 30))]],
            column_headers = [], row_headers = [''region'']\<rparr>)
     False
   = Inl TypeError"
  by code_simp

end
